theory Spec2Isabelle
  imports Complex_Main
begin

section \<open>Python values seen by the request handlers of app.py\<close>

text \<open>
  A Python \<open>str\<close> is a sequence of Unicode code points, and \<open>len\<close> counts code points:
  the translated text is Kannada, which an 8-bit character cannot hold. A string is
  therefore a list of code points; \<open>py\<close> embeds an ASCII literal of the source.
\<close>

type_synonym pystr = "nat list"

definition py :: "string \<Rightarrow> pystr" where
  "py s = map of_char s"

text \<open>
  The code points that \<open>str.strip()\<close> with no argument removes (CPython's
  \<open>Py_UNICODE_ISSPACE\<close>): U+0009..U+000D, U+001C..U+0020, U+0085, U+00A0, U+1680,
  U+2000..U+200A, U+2028, U+2029, U+202F, U+205F, U+3000.
\<close>

definition isspace :: "nat \<Rightarrow> bool" where
  "isspace c \<longleftrightarrow>
     (9 \<le> c \<and> c \<le> 13) \<or> (28 \<le> c \<and> c \<le> 32) \<or> c = 133 \<or> c = 160 \<or> c = 5760 \<or>
     (8192 \<le> c \<and> c \<le> 8202) \<or> c = 8232 \<or> c = 8233 \<or> c = 8239 \<or> c = 8287 \<or> c = 12288"

definition strip :: "pystr \<Rightarrow> pystr" where
  "strip s = rev (dropWhile isspace (rev (dropWhile isspace s)))"

text \<open>
  What \<open>request.get_json()\<close> can return: the Python image of a JSON document. A dict is
  an association list holding each key once. The floats NaN and Infinity, which are
  not zero, are left out of \<open>JFloat\<close>.
\<close>

datatype json =
    JNull
  | JBool bool
  | JInt int
  | JFloat rat
  | JStr pystr
  | JList "json list"
  | JDict "(pystr \<times> json) list"

fun type_name :: "json \<Rightarrow> string" where
  "type_name JNull = ''NoneType''"
| "type_name (JBool b) = ''bool''"
| "type_name (JInt i) = ''int''"
| "type_name (JFloat r) = ''float''"
| "type_name (JStr s) = ''str''"
| "type_name (JList xs) = ''list''"
| "type_name (JDict kvs) = ''dict''"

text \<open>The message of the AttributeError raised by \<open>v.a\<close> when the type of \<open>v\<close> has no \<open>a\<close>.\<close>

definition attribute_error :: "json \<Rightarrow> string \<Rightarrow> pystr" where
  "attribute_error v a =
     py ([CHR 0x27] @ type_name v @ [CHR 0x27] @ '' object has no attribute '' @
         [CHR 0x27] @ a @ [CHR 0x27])"

text \<open>
  An exception is its message \<open>str(e)\<close>; a computation that may raise returns
  \<open>pystr + 'a\<close>, with \<open>Inl\<close> the exception. Only exceptions of class \<open>Exception\<close> are
  modelled, the ones \<open>except Exception\<close> catches.
\<close>

text \<open>\<open>data.get(k, d)\<close>: only a dict has the method.\<close>

fun dict_get :: "json \<Rightarrow> pystr \<Rightarrow> json \<Rightarrow> pystr + json" where
  "dict_get (JDict kvs) k d = Inr (case map_of kvs k of Some v \<Rightarrow> v | None \<Rightarrow> d)"
| "dict_get v k d = Inl (attribute_error v ''get'')"

text \<open>\<open>v.strip()\<close>: only a string has the method.\<close>

fun str_strip :: "json \<Rightarrow> pystr + pystr" where
  "str_strip (JStr s) = Inr (strip s)"
| "str_strip v = Inl (attribute_error v ''strip'')"

text \<open>Python's truth value of an object, as \<open>not texts\<close> tests it.\<close>

fun truthy :: "json \<Rightarrow> bool" where
  "truthy JNull = False"
| "truthy (JBool b) = b"
| "truthy (JInt i) = (i \<noteq> 0)"
| "truthy (JFloat r) = (r \<noteq> 0)"
| "truthy (JStr s) = (s \<noteq> [])"
| "truthy (JList xs) = (xs \<noteq> [])"
| "truthy (JDict kvs) = (kvs \<noteq> [])"

text \<open>\<open>isinstance(v, list)\<close>, and the entries a \<open>for\<close> loop over a list visits.\<close>

fun isinstance_list :: "json \<Rightarrow> bool" where
  "isinstance_list (JList xs) = True"
| "isinstance_list v = False"

fun entries :: "json \<Rightarrow> json list" where
  "entries (JList xs) = xs"
| "entries v = []"

section \<open>The external services and the trace of a request\<close>

text \<open>
  The handlers call two services and print to the console. Every such effect is
  recorded, in order, in the trace of the request:
  \<^item> \<open>Translate text src dest r\<close>: the call \<open>translator.translate(text, src=src, dest=dest)\<close>
    with its outcome \<open>r\<close>, \<open>Inr\<close> the \<open>.text\<close> of the result;
  \<^item> \<open>Speak text lang file r\<close>: the two statements \<open>gTTS(text=text, lang=lang, slow=False)\<close>
    and \<open>.save(path)\<close> of one \<open>try\<close> block, where \<open>path\<close> is \<open>file\<close> inside
    \<open>AUDIO_FOLDER\<close>, with the outcome \<open>r\<close>;
  \<^item> \<open>Print msg\<close>: a \<open>print\<close> that wrote \<open>msg\<close>;
  \<^item> \<open>Print_raises msg e\<close>: a \<open>print\<close> of \<open>msg\<close> that raised \<open>e\<close>, as it does when the
    standard output cannot encode \<open>msg\<close> or is a closed pipe.
  The services and the console are not part of the program. Their answer to a call may
  depend on everything that happened before it in the request, so each is a function of
  the trace so far.
\<close>

datatype event =
    Translate pystr string string "pystr + pystr"
  | Speak pystr string string "pystr + unit"
  | Print pystr
  | Print_raises pystr pystr

record env =
  translate :: "event list \<Rightarrow> pystr \<Rightarrow> string \<Rightarrow> string \<Rightarrow> pystr + pystr"
  gTTS_save :: "event list \<Rightarrow> pystr \<Rightarrow> string \<Rightarrow> string \<Rightarrow> pystr + unit"
  print_out :: "event list \<Rightarrow> pystr \<Rightarrow> pystr + unit"

text \<open>A response is the pair the handler returns: the \<open>jsonify\<close>-ed body and the HTTP status.\<close>

type_synonym response = "json \<times> nat"

text \<open>The body \<open>{'error': msg, 'success': False}\<close> of every failure.\<close>

definition failure :: "pystr \<Rightarrow> json" where
  "failure msg = JDict [(py ''error'', JStr msg), (py ''success'', JBool False)]"

text \<open>
  The block \<^verbatim>\<open>try: tts = gTTS(text=text, lang=lang, slow=False); tts.save(path)
  except Exception as audio_error: print(f"<label>{audio_error}")\<close>,
  which occurs three times in the source. The \<open>print\<close> stands in the \<open>except\<close> clause,
  where the inner \<open>try\<close> no longer protects it: an exception it raises leaves the block.
  The result is \<open>Inl\<close> that exception, or \<open>Inr ()\<close> when the block ends, and the extended trace.
\<close>

definition try_speak ::
  "env \<Rightarrow> event list \<Rightarrow> pystr \<Rightarrow> string \<Rightarrow> string \<Rightarrow> string \<Rightarrow> (pystr + unit) \<times> event list" where
  "try_speak env tr text lang file label =
     (let r = gTTS_save env tr text lang file;
          tr' = tr @ [Speak text lang file r]
      in case r of
           Inl audio_error \<Rightarrow>
             (case print_out env tr' (py label @ audio_error) of
                Inl e \<Rightarrow> (Inl e, tr' @ [Print_raises (py label @ audio_error) e])
              | Inr u \<Rightarrow> (Inr (), tr' @ [Print (py label @ audio_error)]))
         | Inr u \<Rightarrow> (Inr (), tr'))"

section \<open>POST /api/translate\<close>

text \<open>
  The body of the outer \<open>try\<close> of \<open>translate_text\<close>. The argument is the outcome of
  \<open>request.get_json()\<close>. The result is the response returned, or \<open>Inl\<close> the exception
  that leaves the block, and the trace.
\<close>

definition translate_text_try :: "env \<Rightarrow> pystr + json \<Rightarrow> (pystr + response) \<times> event list" where
  "translate_text_try env req =
     (case req of
        Inl e \<Rightarrow> (Inl e, [])
      | Inr data \<Rightarrow>
     (case dict_get data (py ''text'') (JStr []) of
        Inl e \<Rightarrow> (Inl e, [])
      | Inr v \<Rightarrow>
     (case str_strip v of
        Inl e \<Rightarrow> (Inl e, [])
      | Inr english_text \<Rightarrow>
          if english_text = [] then
            (Inr (failure (py ''Please enter English text to translate''), 400), [])
          else if length english_text > 500 then
            (Inr (failure (py ''Text is too long. Maximum 500 characters allowed.''), 400), [])
          else
            (case translate env [] english_text ''en'' ''kn'' of
               Inl e \<Rightarrow> (Inl e, [Translate english_text ''en'' ''kn'' (Inl e)])
             | Inr kannada_text \<Rightarrow>
                 (case try_speak env [Translate english_text ''en'' ''kn'' (Inr kannada_text)]
                         kannada_text ''kn'' ''output.mp3'' ''Audio generation warning: '' of
                    (Inl e, tr) \<Rightarrow> (Inl e, tr)
                  | (Inr u, tr) \<Rightarrow>
                      (Inr (JDict [(py ''success'', JBool True),
                                   (py ''english'', JStr english_text),
                                   (py ''kannada'', JStr kannada_text),
                                   (py ''audio_url'', JStr (py ''/static/output.mp3''))], 200),
                       tr))))))"

text \<open>
  The handler: the \<open>except Exception as e\<close> clause turns an exception of the body, also
  one raised by a \<open>print\<close> of the body, into the 500 response. The \<open>print\<close> of this clause
  is outside every \<open>try\<close>; the handler is modelled by the value it returns, which it does
  after that \<open>print\<close> has written its line.
\<close>

definition translate_text :: "env \<Rightarrow> pystr + json \<Rightarrow> response \<times> event list" where
  "translate_text env req =
     (case translate_text_try env req of
        (Inr resp, tr) \<Rightarrow> (resp, tr)
      | (Inl e, tr) \<Rightarrow>
          ((failure (py ''Translation failed: '' @ e), 500),
           tr @ [Print (py ''Translation error: '' @ e)]))"

section \<open>POST /api/translate-batch\<close>

text \<open>
  The \<open>for text in texts\<close> loop, with the list \<open>translations\<close> built so far and the
  trace so far. An entry that is not a string raises at \<open>text.strip()\<close>. The service is
  called with the entry as it is, not with the stripped one.
\<close>

fun translate_each ::
  "env \<Rightarrow> json list \<Rightarrow> json list \<Rightarrow> event list \<Rightarrow> (pystr + json list) \<times> event list" where
  "translate_each env [] translations tr = (Inr translations, tr)"
| "translate_each env (JStr text # texts) translations tr =
     (if strip text \<noteq> [] then
        (case translate env tr text ''en'' ''kn'' of
           Inl e \<Rightarrow> (Inl e, tr @ [Translate text ''en'' ''kn'' (Inl e)])
         | Inr kannada \<Rightarrow>
             translate_each env texts
               (translations @ [JDict [(py ''english'', JStr text), (py ''kannada'', JStr kannada)]])
               (tr @ [Translate text ''en'' ''kn'' (Inr kannada)]))
      else translate_each env texts translations tr)"
| "translate_each env (v # texts) translations tr = (Inl (attribute_error v ''strip''), tr)"

definition translate_batch_try :: "env \<Rightarrow> pystr + json \<Rightarrow> (pystr + response) \<times> event list" where
  "translate_batch_try env req =
     (case req of
        Inl e \<Rightarrow> (Inl e, [])
      | Inr data \<Rightarrow>
     (case dict_get data (py ''texts'') (JList []) of
        Inl e \<Rightarrow> (Inl e, [])
      | Inr texts \<Rightarrow>
          if \<not> truthy texts \<or> \<not> isinstance_list texts then
            (Inr (failure (py ''Please provide a list of texts''), 400), [])
          else
            (case translate_each env (entries texts) [] [] of
               (Inl e, tr) \<Rightarrow> (Inl e, tr)
             | (Inr translations, tr) \<Rightarrow>
                 (Inr (JDict [(py ''success'', JBool True),
                              (py ''translations'', JList translations)], 200), tr))))"

definition translate_batch :: "env \<Rightarrow> pystr + json \<Rightarrow> response \<times> event list" where
  "translate_batch env req =
     (case translate_batch_try env req of
        (Inr resp, tr) \<Rightarrow> (resp, tr)
      | (Inl e, tr) \<Rightarrow>
          ((failure (py ''Batch translation failed: '' @ e), 500),
           tr @ [Print (py ''Batch translation error: '' @ e)]))"

section \<open>POST /api/voice-translate\<close>

definition voice_translate_try :: "env \<Rightarrow> pystr + json \<Rightarrow> (pystr + response) \<times> event list" where
  "voice_translate_try env req =
     (case req of
        Inl e \<Rightarrow> (Inl e, [])
      | Inr data \<Rightarrow>
     (case dict_get data (py ''text'') (JStr []) of
        Inl e \<Rightarrow> (Inl e, [])
      | Inr v \<Rightarrow>
     (case str_strip v of
        Inl e \<Rightarrow> (Inl e, [])
      | Inr english_text \<Rightarrow>
          if english_text = [] then
            (Inr (failure (py ''Please enter English text to translate''), 400), [])
          else if length english_text > 500 then
            (Inr (failure (py ''Text is too long. Maximum 500 characters allowed.''), 400), [])
          else
            (case translate env [] english_text ''en'' ''kn'' of
               Inl e \<Rightarrow> (Inl e, [Translate english_text ''en'' ''kn'' (Inl e)])
             | Inr kannada_text \<Rightarrow>
                 (case try_speak env [Translate english_text ''en'' ''kn'' (Inr kannada_text)]
                         english_text ''en'' ''english_audio.mp3''
                         ''English audio generation warning: '' of
                    (Inl e, tr) \<Rightarrow> (Inl e, tr)
                  | (Inr u, tr) \<Rightarrow>
                 (case try_speak env tr kannada_text ''kn'' ''kannada_audio.mp3''
                         ''Kannada audio generation warning: '' of
                    (Inl e, tr') \<Rightarrow> (Inl e, tr')
                  | (Inr u', tr') \<Rightarrow>
                      (Inr (JDict [(py ''success'', JBool True),
                                   (py ''english'', JStr english_text),
                                   (py ''kannada'', JStr kannada_text),
                                   (py ''english_audio_url'', JStr (py ''/static/english_audio.mp3'')),
                                   (py ''kannada_audio_url'', JStr (py ''/static/kannada_audio.mp3''))],
                            200),
                       tr')))))))"

definition voice_translate :: "env \<Rightarrow> pystr + json \<Rightarrow> response \<times> event list" where
  "voice_translate env req =
     (case voice_translate_try env req of
        (Inr resp, tr) \<Rightarrow> (resp, tr)
      | (Inl e, tr) \<Rightarrow>
          ((failure (py ''Voice translation failed: '' @ e), 500),
           tr @ [Print (py ''Voice translation error: '' @ e)]))"

section \<open>Concrete services for running the model\<close>

text \<open>
  Stand-ins for the two services and the console, used to run the handlers on concrete requests:
  \<^item> \<open>online\<close>: both services answer and every line is printed; the translation is the
    text behind the Kannada letter U+0C95;
  \<^item> \<open>no_speech\<close>: the translation answers, every synthesis raises, every line is printed;
  \<^item> \<open>no_translation\<close>: every translation raises;
  \<^item> \<open>second_call_fails\<close>: the translation answers the first call of a request and raises afterwards;
  \<^item> \<open>english_voice_fails\<close>: synthesis raises for English and succeeds for Kannada;
  \<^item> \<open>ascii_console\<close>: the translation answers, every synthesis raises with a message that
    holds the Kannada letter U+0C95, and the standard output encodes ASCII only, so that
    printing a line with another code point raises.
\<close>

definition online :: env where
  "online = \<lparr>translate = (\<lambda>tr text src dest. Inr (3221 # text)),
             gTTS_save = (\<lambda>tr text lang file. Inr ()),
             print_out = (\<lambda>tr msg. Inr ())\<rparr>"

definition no_speech :: env where
  "no_speech = \<lparr>translate = (\<lambda>tr text src dest. Inr (3221 # text)),
                gTTS_save = (\<lambda>tr text lang file. Inl (py ''Connection error'')),
                print_out = (\<lambda>tr msg. Inr ())\<rparr>"



definition english_voice_fails :: env where
  "english_voice_fails =
     \<lparr>translate = (\<lambda>tr text src dest. Inr (3221 # text)),
      gTTS_save = (\<lambda>tr text lang file. if lang = ''en'' then Inl (py ''Connection error'') else Inr ()),
      print_out = (\<lambda>tr msg. Inr ())\<rparr>"

definition ascii_console :: env where
  "ascii_console =
     \<lparr>translate = (\<lambda>tr text src dest. Inr (3221 # text)),
      gTTS_save = (\<lambda>tr text lang file. Inl [3221]),
      print_out = (\<lambda>tr msg. if list_all (\<lambda>c. c < 128) msg then Inr ()
                              else Inl (py ''ordinal not in range(128)''))\<rparr>"

section \<open>Stripping\<close>

lemma strip_eq_Nil_iff: "strip s = [] \<longleftrightarrow> (\<forall>c\<in>set s. isspace c)"
proof
  assume "strip s = []"
  then have all: "\<forall>c\<in>set (dropWhile isspace s). isspace c"
    by (simp add: strip_def dropWhile_eq_Nil_conv)
  have "dropWhile isspace s = []"
  proof (rule ccontr)
    assume ne: "dropWhile isspace s \<noteq> []"
    then have "\<not> isspace (hd (dropWhile isspace s))" by (rule hd_dropWhile)
    moreover have "hd (dropWhile isspace s) \<in> set (dropWhile isspace s)" using ne by simp
    ultimately show False using all by blast
  qed
  then show "\<forall>c\<in>set s. isspace c" by (simp add: dropWhile_eq_Nil_conv)
next
  assume "\<forall>c\<in>set s. isspace c"
  then show "strip s = []" by (auto simp: strip_def dest: set_dropWhileD)
qed

lemma strip_replicate: "\<not> isspace c \<Longrightarrow> strip (replicate n c) = replicate n c"
  by (cases n)
     (simp_all add: strip_def dropWhile_append3 replicate_append_same [symmetric] del: replicate_Suc)

lemma strip_Nil: "strip [] = []"
  by (simp add: strip_def)

lemma py_Cons_not_Nil: "py (c # cs) \<noteq> []"
  by (simp add: py_def)

lemma not_isspace_a: "\<not> isspace 97"
  by (simp add: isspace_def)

lemma strip_Hello: "strip (py ''Hello'') = py ''Hello''"
  by (simp add: strip_def py_def isspace_def)

lemma strip_World: "strip (py ''World'') = py ''World''"
  by (simp add: strip_def py_def isspace_def)

section \<open>The trace of a synthesis attempt\<close>

lemma try_speak_keeps_head:
  "try_speak env (ev # tr) text lang file label = (r, tr') \<Longrightarrow> \<exists>tr''. tr' = ev # tr''"
  by (auto simp: try_speak_def Let_def split: sum.splits)

lemma translate_text_try_calls:
  assumes "map_of kvs (py ''text'') = Some (JStr s)"
    and "strip s \<noteq> []" and "length (strip s) \<le> 500"
  shows "\<exists>res r tr. translate_text_try env (Inr (JDict kvs)) =
           (res, Translate (strip s) ''en'' ''kn'' r # tr)"
  using assms
  by (auto simp: translate_text_try_def split: sum.splits prod.splits
           dest!: try_speak_keeps_head)

lemma voice_translate_try_calls:
  assumes "map_of kvs (py ''text'') = Some (JStr s)"
    and "strip s \<noteq> []" and "length (strip s) \<le> 500"
  shows "\<exists>res r tr. voice_translate_try env (Inr (JDict kvs)) =
           (res, Translate (strip s) ''en'' ''kn'' r # tr)"
  using assms
  by (auto simp: voice_translate_try_def split: sum.splits prod.splits
           dest!: try_speak_keeps_head)

section \<open>Validation of the text of a request\<close>

text \<open>
  Claim C5. A text that is empty or made of whitespace only is rejected by both
  \<open>translate_text\<close> and \<open>voice_translate\<close> with the 400 failure response, and the trace of
  the request is empty: neither the translation nor the synthesis service is called.
\<close>

theorem blank_text_rejected:
  assumes "map_of kvs (py ''text'') = Some (JStr s)" and "\<forall>c\<in>set s. isspace c"
  shows "translate_text env (Inr (JDict kvs)) =
           ((failure (py ''Please enter English text to translate''), 400), []) \<and>
         voice_translate env (Inr (JDict kvs)) =
           ((failure (py ''Please enter English text to translate''), 400), [])"
proof -
  from assms(2) have "strip s = []" by (simp add: strip_eq_Nil_iff)
  with assms(1) show ?thesis
    by (simp add: translate_text_def translate_text_try_def
                  voice_translate_def voice_translate_try_def)
qed

theorem blank_text_rejected_witness:
  "translate_text online (Inr (JDict [(py ''text'', JStr [32, 9, 10])])) =
     ((failure (py ''Please enter English text to translate''), 400), []) \<and>
   voice_translate online (Inr (JDict [(py ''text'', JStr [32, 9, 10])])) =
     ((failure (py ''Please enter English text to translate''), 400), [])"
  using blank_text_rejected [of "[(py ''text'', JStr [32, 9, 10])]" "[32, 9, 10]" online]
  by (simp add: isspace_def)

text \<open>
  Claim C6. A text whose stripped length is greater than 500 is rejected by both
  \<open>translate_text\<close> and \<open>voice_translate\<close> with the 400 failure response, before any
  service call. A text whose stripped length is exactly 500 passes the check: the status
  is not 400 and the translation service is called with the stripped text.
\<close>

theorem long_text_rejected:
  assumes "map_of kvs (py ''text'') = Some (JStr s)"
  shows "(500 < length (strip s) \<longrightarrow>
            translate_text env (Inr (JDict kvs)) =
              ((failure (py ''Text is too long. Maximum 500 characters allowed.''), 400), []) \<and>
            voice_translate env (Inr (JDict kvs)) =
              ((failure (py ''Text is too long. Maximum 500 characters allowed.''), 400), [])) \<and>
         (length (strip s) = 500 \<longrightarrow>
            snd (fst (translate_text env (Inr (JDict kvs)))) \<noteq> 400 \<and>
            snd (fst (voice_translate env (Inr (JDict kvs)))) \<noteq> 400 \<and>
            (\<exists>r tr. snd (translate_text env (Inr (JDict kvs))) = Translate (strip s) ''en'' ''kn'' r # tr) \<and>
            (\<exists>r tr. snd (voice_translate env (Inr (JDict kvs))) = Translate (strip s) ''en'' ''kn'' r # tr))"
proof (intro conjI impI)
  assume "500 < length (strip s)"
  then have ne: "strip s \<noteq> []" by auto
  show "translate_text env (Inr (JDict kvs)) =
          ((failure (py ''Text is too long. Maximum 500 characters allowed.''), 400), [])"
    using assms ne \<open>500 < length (strip s)\<close>
    by (simp add: translate_text_def translate_text_try_def)
  show "voice_translate env (Inr (JDict kvs)) =
          ((failure (py ''Text is too long. Maximum 500 characters allowed.''), 400), [])"
    using assms ne \<open>500 < length (strip s)\<close>
    by (simp add: voice_translate_def voice_translate_try_def)
next
  assume len: "length (strip s) = 500"
  then have ne: "strip s \<noteq> []" by auto
  show "snd (fst (translate_text env (Inr (JDict kvs)))) \<noteq> 400"
    using assms ne len
    by (simp add: translate_text_def translate_text_try_def split: sum.split prod.split)
  show "snd (fst (voice_translate env (Inr (JDict kvs)))) \<noteq> 400"
    using assms ne len
    by (simp add: voice_translate_def voice_translate_try_def split: sum.split prod.split)
  show "\<exists>r tr. snd (translate_text env (Inr (JDict kvs))) = Translate (strip s) ''en'' ''kn'' r # tr"
    using translate_text_try_calls [OF assms ne, of env] len
    by (auto simp: translate_text_def split: sum.splits)
  show "\<exists>r tr. snd (voice_translate env (Inr (JDict kvs))) = Translate (strip s) ''en'' ''kn'' r # tr"
    using voice_translate_try_calls [OF assms ne, of env] len
    by (auto simp: voice_translate_def split: sum.splits)
qed

theorem long_text_rejected_witness:
  "(translate_text online (Inr (JDict [(py ''text'', JStr (replicate 501 97))])) =
      ((failure (py ''Text is too long. Maximum 500 characters allowed.''), 400), []) \<and>
    voice_translate online (Inr (JDict [(py ''text'', JStr (replicate 501 97))])) =
      ((failure (py ''Text is too long. Maximum 500 characters allowed.''), 400), [])) \<and>
   snd (fst (translate_text online (Inr (JDict [(py ''text'', JStr (replicate 500 97))])))) \<noteq> 400 \<and>
   snd (fst (voice_translate online (Inr (JDict [(py ''text'', JStr (replicate 500 97))])))) \<noteq> 400"
  using long_text_rejected [of "[(py ''text'', JStr (replicate 501 97))]" "replicate 501 97" online]
        long_text_rejected [of "[(py ''text'', JStr (replicate 500 97))]" "replicate 500 97" online]
  by (simp add: strip_replicate not_isspace_a)

section \<open>Sending one text: translation and speech\<close>

lemma speech_failure_is_swallowed_if_printed:
  assumes "map_of kvs (py ''text'') = Some (JStr s)"
    and "strip s \<noteq> []" and "length (strip s) \<le> 500"
    and "translate env [] (strip s) ''en'' ''kn'' = Inr k"
    and "gTTS_save env [Translate (strip s) ''en'' ''kn'' (Inr k)] k ''kn'' ''output.mp3'' = Inl err"
    and "print_out env [Translate (strip s) ''en'' ''kn'' (Inr k),
                        Speak k ''kn'' ''output.mp3'' (Inl err)]
           (py ''Audio generation warning: '' @ err) = Inr ()"
  shows "translate_text env (Inr (JDict kvs)) =
           ((JDict [(py ''success'', JBool True),
                    (py ''english'', JStr (strip s)),
                    (py ''kannada'', JStr k),
                    (py ''audio_url'', JStr (py ''/static/output.mp3''))], 200),
            [Translate (strip s) ''en'' ''kn'' (Inr k),
             Speak k ''kn'' ''output.mp3'' (Inl err),
             Print (py ''Audio generation warning: '' @ err)])"
  using assms
  by (simp add: translate_text_def translate_text_try_def try_speak_def Let_def)

lemma speech_failure_is_swallowed_if_printed_run:
  "translate_text no_speech (Inr (JDict [(py ''text'', JStr (py ''Hello''))])) =
     ((JDict [(py ''success'', JBool True),
              (py ''english'', JStr (py ''Hello'')),
              (py ''kannada'', JStr (3221 # py ''Hello'')),
              (py ''audio_url'', JStr (py ''/static/output.mp3''))], 200),
      [Translate (py ''Hello'') ''en'' ''kn'' (Inr (3221 # py ''Hello'')),
       Speak (3221 # py ''Hello'') ''kn'' ''output.mp3'' (Inl (py ''Connection error'')),
       Print (py ''Audio generation warning: '' @ py ''Connection error'')])"
  using speech_failure_is_swallowed_if_printed
          [of "[(py ''text'', JStr (py ''Hello''))]" "py ''Hello''" no_speech
              "3221 # py ''Hello''" "py ''Connection error''"]
  by (simp add: strip_Hello no_speech_def) (simp add: py_def)

text \<open>
  Claim C2 says that a failing synthesis never aborts \<open>translate_text\<close>: the response is
  the 200 response with the fixed \<open>audio_url\<close>. The comment of line 64, \<open>Continue without
  audio if generation fails\<close>, says the same, and so does the handler as long as the
  warning is printed (\<open>speech_failure_is_swallowed_if_printed\<close>). But the \<open>print\<close> of the
  warning stands inside the outer \<open>try\<close>: on \<open>ascii_console\<close>, where the translation
  succeeds, the synthesis raises and the warning cannot be printed, the handler answers
  with the 500 failure response.
\<close>

theorem unprintable_warning_aborts_translate_text:
  "translate_text ascii_console (Inr (JDict [(py ''text'', JStr (py ''Hello''))])) =
     ((failure (py ''Translation failed: '' @ py ''ordinal not in range(128)''), 500),
      [Translate (py ''Hello'') ''en'' ''kn'' (Inr (3221 # py ''Hello'')),
       Speak (3221 # py ''Hello'') ''kn'' ''output.mp3'' (Inl [3221]),
       Print_raises (py ''Audio generation warning: '' @ [3221]) (py ''ordinal not in range(128)''),
       Print (py ''Translation error: '' @ py ''ordinal not in range(128)'')])"
proof -
  have len: "length (py ''Hello'') \<le> 500" by (simp add: py_def)
  have unprintable: "\<not> list_all (\<lambda>c. c < 128) (py ''Audio generation warning: '' @ [3221])"
    by simp
  show ?thesis
    using len unprintable
    by (simp add: ascii_console_def translate_text_def translate_text_try_def try_speak_def Let_def
                  strip_Hello py_Cons_not_Nil)
qed




lemma voice_translate_both_audios_if_printed:
  assumes "map_of kvs (py ''text'') = Some (JStr s)"
    and "strip s \<noteq> []" and "length (strip s) \<le> 500"
    and "translate env [] (strip s) ''en'' ''kn'' = Inr k"
    and r1: "gTTS_save env [Translate (strip s) ''en'' ''kn'' (Inr k)]
           (strip s) ''en'' ''english_audio.mp3'' = r1"
    and p1: "\<And>a. r1 = Inl a \<Longrightarrow>
           print_out env [Translate (strip s) ''en'' ''kn'' (Inr k),
                          Speak (strip s) ''en'' ''english_audio.mp3'' r1]
             (py ''English audio generation warning: '' @ a) = Inr ()"
    and r2: "gTTS_save env
           ([Translate (strip s) ''en'' ''kn'' (Inr k),
             Speak (strip s) ''en'' ''english_audio.mp3'' r1] @
            (case r1 of Inl a \<Rightarrow> [Print (py ''English audio generation warning: '' @ a)]
                      | Inr u \<Rightarrow> []))
           k ''kn'' ''kannada_audio.mp3'' = r2"
    and p2: "\<And>a. r2 = Inl a \<Longrightarrow>
           print_out env
             ([Translate (strip s) ''en'' ''kn'' (Inr k),
               Speak (strip s) ''en'' ''english_audio.mp3'' r1] @
              (case r1 of Inl a \<Rightarrow> [Print (py ''English audio generation warning: '' @ a)]
                        | Inr u \<Rightarrow> []) @
              [Speak k ''kn'' ''kannada_audio.mp3'' r2])
             (py ''Kannada audio generation warning: '' @ a) = Inr ()"
  shows "voice_translate env (Inr (JDict kvs)) =
           ((JDict [(py ''success'', JBool True),
                    (py ''english'', JStr (strip s)),
                    (py ''kannada'', JStr k),
                    (py ''english_audio_url'', JStr (py ''/static/english_audio.mp3'')),
                    (py ''kannada_audio_url'', JStr (py ''/static/kannada_audio.mp3''))], 200),
            [Translate (strip s) ''en'' ''kn'' (Inr k),
             Speak (strip s) ''en'' ''english_audio.mp3'' r1] @
            (case r1 of Inl a \<Rightarrow> [Print (py ''English audio generation warning: '' @ a)]
                      | Inr u \<Rightarrow> []) @
            [Speak k ''kn'' ''kannada_audio.mp3'' r2] @
            (case r2 of Inl a \<Rightarrow> [Print (py ''Kannada audio generation warning: '' @ a)]
                      | Inr u \<Rightarrow> []))"
proof -
  have first: "try_speak env [Translate (strip s) ''en'' ''kn'' (Inr k)]
                 (strip s) ''en'' ''english_audio.mp3'' ''English audio generation warning: '' =
               (Inr (),
                [Translate (strip s) ''en'' ''kn'' (Inr k),
                 Speak (strip s) ''en'' ''english_audio.mp3'' r1] @
                (case r1 of Inl a \<Rightarrow> [Print (py ''English audio generation warning: '' @ a)]
                          | Inr u \<Rightarrow> []))"
    using r1 p1 by (cases r1) (simp_all add: try_speak_def Let_def)
  have second: "try_speak env
                 ([Translate (strip s) ''en'' ''kn'' (Inr k),
                   Speak (strip s) ''en'' ''english_audio.mp3'' r1] @
                  (case r1 of Inl a \<Rightarrow> [Print (py ''English audio generation warning: '' @ a)]
                            | Inr u \<Rightarrow> []))
                 k ''kn'' ''kannada_audio.mp3'' ''Kannada audio generation warning: '' =
               (Inr (),
                [Translate (strip s) ''en'' ''kn'' (Inr k),
                 Speak (strip s) ''en'' ''english_audio.mp3'' r1] @
                (case r1 of Inl a \<Rightarrow> [Print (py ''English audio generation warning: '' @ a)]
                          | Inr u \<Rightarrow> []) @
                [Speak k ''kn'' ''kannada_audio.mp3'' r2] @
                (case r2 of Inl a \<Rightarrow> [Print (py ''Kannada audio generation warning: '' @ a)]
                          | Inr u \<Rightarrow> []))"
    using r2 p2 by (cases r2) (simp_all add: try_speak_def Let_def)
  from assms(1-4) show ?thesis
    by (simp add: voice_translate_def voice_translate_try_def first second [simplified])
qed

lemma voice_translate_both_audios_if_printed_run:
  "voice_translate english_voice_fails (Inr (JDict [(py ''text'', JStr (py ''Hello''))])) =
     ((JDict [(py ''success'', JBool True),
              (py ''english'', JStr (py ''Hello'')),
              (py ''kannada'', JStr (3221 # py ''Hello'')),
              (py ''english_audio_url'', JStr (py ''/static/english_audio.mp3'')),
              (py ''kannada_audio_url'', JStr (py ''/static/kannada_audio.mp3''))], 200),
      [Translate (py ''Hello'') ''en'' ''kn'' (Inr (3221 # py ''Hello'')),
       Speak (py ''Hello'') ''en'' ''english_audio.mp3'' (Inl (py ''Connection error'')),
       Print (py ''English audio generation warning: '' @ py ''Connection error''),
       Speak (3221 # py ''Hello'') ''kn'' ''kannada_audio.mp3'' (Inr ())])"
  using voice_translate_both_audios_if_printed
          [of "[(py ''text'', JStr (py ''Hello''))]" "py ''Hello''" english_voice_fails
              "3221 # py ''Hello''" "Inl (py ''Connection error'')" "Inr ()"]
  by (simp add: strip_Hello english_voice_fails_def) (simp add: py_def)

text \<open>
  Claim C8 says that the two synthesis attempts of \<open>voice_translate\<close> are independent and
  that the response is always the 200 response with the two fixed audio URLs. The handler
  wraps each attempt in its own \<open>try\<close> and does so as long as each warning is printed
  (\<open>voice_translate_both_audios_if_printed\<close>). But the \<open>print\<close> of a warning stands inside
  the outer \<open>try\<close>: on \<open>ascii_console\<close>, where the translation succeeds, the English
  synthesis raises and the warning cannot be printed, the Kannada synthesis is never
  attempted and the handler answers with the 500 failure response.
\<close>

theorem unprintable_warning_aborts_voice_translate:
  "voice_translate ascii_console (Inr (JDict [(py ''text'', JStr (py ''Hello''))])) =
     ((failure (py ''Voice translation failed: '' @ py ''ordinal not in range(128)''), 500),
      [Translate (py ''Hello'') ''en'' ''kn'' (Inr (3221 # py ''Hello'')),
       Speak (py ''Hello'') ''en'' ''english_audio.mp3'' (Inl [3221]),
       Print_raises (py ''English audio generation warning: '' @ [3221])
         (py ''ordinal not in range(128)''),
       Print (py ''Voice translation error: '' @ py ''ordinal not in range(128)'')])"
proof -
  have len: "length (py ''Hello'') \<le> 500" by (simp add: py_def)
  have unprintable:
    "\<not> list_all (\<lambda>c. c < 128) (py ''English audio generation warning: '' @ [3221])"
    by simp
  show ?thesis
    using len unprintable
    by (simp add: ascii_console_def voice_translate_def voice_translate_try_def try_speak_def Let_def
                  strip_Hello py_Cons_not_Nil)
qed

section \<open>Validation of a batch\<close>

text \<open>
  Claim C7. When the \<open>texts\<close> field is missing, is the empty list or is not a list,
  \<open>translate_batch\<close> returns the 400 failure response and the trace is empty.
\<close>

theorem bad_texts_rejected:
  assumes "map_of kvs (py ''texts'') = None \<or>
           (\<exists>v. map_of kvs (py ''texts'') = Some v \<and> (v = JList [] \<or> \<not> isinstance_list v))"
  shows "translate_batch env (Inr (JDict kvs)) =
           ((failure (py ''Please provide a list of texts''), 400), [])"
  using assms
  by (auto simp: translate_batch_def translate_batch_try_def)

theorem bad_texts_rejected_witness:
  "translate_batch online (Inr (JDict [])) =
     ((failure (py ''Please provide a list of texts''), 400), []) \<and>
   translate_batch online (Inr (JDict [(py ''texts'', JList [])])) =
     ((failure (py ''Please provide a list of texts''), 400), []) \<and>
   translate_batch online (Inr (JDict [(py ''texts'', JStr (py ''Hello''))])) =
     ((failure (py ''Please provide a list of texts''), 400), []) \<and>
   translate_batch online (Inr (JDict [(py ''texts'', JInt 7)])) =
     ((failure (py ''Please provide a list of texts''), 400), [])"
  using bad_texts_rejected [of "[]" online]
        bad_texts_rejected [of "[(py ''texts'', JList [])]" online]
        bad_texts_rejected [of "[(py ''texts'', JStr (py ''Hello''))]" online]
        bad_texts_rejected [of "[(py ''texts'', JInt 7)]" online]
  by simp

lemma translate_each_blank:
  "\<forall>t\<in>set ts. strip t = [] \<Longrightarrow> translate_each env (map JStr ts) acc tr = (Inr acc, tr)"
  by (induction ts) simp_all

text \<open>
  Claim C10. For a non-empty list of strings that are all empty after stripping,
  \<open>translate_batch\<close> returns the 200 response with \<open>success = True\<close> and the empty list
  of translations, and the trace is empty.
\<close>

theorem all_blank_batch_is_empty_success:
  assumes "map_of kvs (py ''texts'') = Some (JList (map JStr ts))" and "ts \<noteq> []"
    and "\<forall>t\<in>set ts. \<forall>c\<in>set t. isspace c"
  shows "translate_batch env (Inr (JDict kvs)) =
           ((JDict [(py ''success'', JBool True), (py ''translations'', JList [])], 200), [])"
proof -
  from assms(3) have "\<forall>t\<in>set ts. strip t = []" by (simp add: strip_eq_Nil_iff)
  then have "translate_each env (map JStr ts) [] [] = (Inr [], [])" by (rule translate_each_blank)
  with assms(1,2) show ?thesis
    by (simp add: translate_batch_def translate_batch_try_def)
qed

theorem all_blank_batch_is_empty_success_witness:
  "translate_batch online (Inr (JDict [(py ''texts'', JList [JStr [], JStr [32, 32], JStr [9]])])) =
     ((JDict [(py ''success'', JBool True), (py ''translations'', JList [])], 200), [])"
  using all_blank_batch_is_empty_success
          [of "[(py ''texts'', JList [JStr [], JStr [32, 32], JStr [9]])]" "[[], [32, 32], [9]]" online]
  by (simp add: isspace_def)

section \<open>The loop of a batch\<close>

lemma translate_each_ok:
  assumes ok: "\<forall>tr t. \<exists>k. translate env tr t ''en'' ''kn'' = Inr k"
  shows "\<exists>ks. length ks = length (filter (\<lambda>t. strip t \<noteq> []) ts) \<and>
           translate_each env (map JStr ts) acc tr =
             (Inr (acc @ map2 (\<lambda>t k. JDict [(py ''english'', JStr t), (py ''kannada'', JStr k)])
                          (filter (\<lambda>t. strip t \<noteq> []) ts) ks),
              tr @ map2 (\<lambda>t k. Translate t ''en'' ''kn'' (Inr k))
                        (filter (\<lambda>t. strip t \<noteq> []) ts) ks)"
proof (induction ts arbitrary: acc tr)
  case Nil
  show ?case by simp
next
  case (Cons t ts)
  show ?case
  proof (cases "strip t = []")
    case True
    with Cons.IH [of acc tr] show ?thesis by simp
  next
    case False
    from ok obtain k where k: "translate env tr t ''en'' ''kn'' = Inr k" by blast
    from Cons.IH [of "acc @ [JDict [(py ''english'', JStr t), (py ''kannada'', JStr k)]]"
                     "tr @ [Translate t ''en'' ''kn'' (Inr k)]"]
    obtain ks where ks: "length ks = length (filter (\<lambda>t. strip t \<noteq> []) ts)"
      "translate_each env (map JStr ts)
         (acc @ [JDict [(py ''english'', JStr t), (py ''kannada'', JStr k)]])
         (tr @ [Translate t ''en'' ''kn'' (Inr k)]) =
       (Inr ((acc @ [JDict [(py ''english'', JStr t), (py ''kannada'', JStr k)]]) @
             map2 (\<lambda>t k. JDict [(py ''english'', JStr t), (py ''kannada'', JStr k)])
                  (filter (\<lambda>t. strip t \<noteq> []) ts) ks),
        (tr @ [Translate t ''en'' ''kn'' (Inr k)]) @
        map2 (\<lambda>t k. Translate t ''en'' ''kn'' (Inr k)) (filter (\<lambda>t. strip t \<noteq> []) ts) ks)"
      by blast
    show ?thesis
      by (rule exI [of _ "k # ks"]) (simp add: False k ks)
  qed
qed

text \<open>
  Claim C1. For a non-empty list of strings, when no translation call raises,
  \<open>translate_batch\<close> returns the 200 response whose translations are one entry for each
  string that is not empty after stripping, in the order of the input, and nothing for
  the others; each entry holds the string as it was sent and the answer \<open>k\<close> the service gave
  for it. On \<open>["Hello", "", "World"]\<close> these are the two entries for Hello and World.
\<close>

theorem batch_skips_blank_entries:
  assumes "map_of kvs (py ''texts'') = Some (JList (map JStr ts))" and "ts \<noteq> []"
    and "\<forall>tr t. \<exists>k. translate env tr t ''en'' ''kn'' = Inr k"
  shows "\<exists>ks. length ks = length (filter (\<lambda>t. strip t \<noteq> []) ts) \<and>
           translate_batch env (Inr (JDict kvs)) =
             ((JDict [(py ''success'', JBool True),
                      (py ''translations'',
                       JList (map2 (\<lambda>t k. JDict [(py ''english'', JStr t), (py ''kannada'', JStr k)])
                                   (filter (\<lambda>t. strip t \<noteq> []) ts) ks))], 200),
              map2 (\<lambda>t k. Translate t ''en'' ''kn'' (Inr k)) (filter (\<lambda>t. strip t \<noteq> []) ts) ks)"
proof -
  from translate_each_ok [OF assms(3), of ts "[]" "[]"]
  obtain ks where ks: "length ks = length (filter (\<lambda>t. strip t \<noteq> []) ts)"
    "translate_each env (map JStr ts) [] [] =
       (Inr ([] @ map2 (\<lambda>t k. JDict [(py ''english'', JStr t), (py ''kannada'', JStr k)])
                       (filter (\<lambda>t. strip t \<noteq> []) ts) ks),
        [] @ map2 (\<lambda>t k. Translate t ''en'' ''kn'' (Inr k)) (filter (\<lambda>t. strip t \<noteq> []) ts) ks)"
    by blast
  from assms(1,2) ks(2) have "translate_batch env (Inr (JDict kvs)) =
      ((JDict [(py ''success'', JBool True),
               (py ''translations'',
                JList (map2 (\<lambda>t k. JDict [(py ''english'', JStr t), (py ''kannada'', JStr k)])
                            (filter (\<lambda>t. strip t \<noteq> []) ts) ks))], 200),
       map2 (\<lambda>t k. Translate t ''en'' ''kn'' (Inr k)) (filter (\<lambda>t. strip t \<noteq> []) ts) ks)"
    by (simp add: translate_batch_def translate_batch_try_def)
  with ks(1) show ?thesis by blast
qed

theorem batch_skips_blank_entries_witness:
  "translate_batch online
     (Inr (JDict [(py ''texts'', JList [JStr (py ''Hello''), JStr [], JStr (py ''World'')])])) =
   ((JDict [(py ''success'', JBool True),
            (py ''translations'',
             JList [JDict [(py ''english'', JStr (py ''Hello'')),
                           (py ''kannada'', JStr (3221 # py ''Hello''))],
                    JDict [(py ''english'', JStr (py ''World'')),
                           (py ''kannada'', JStr (3221 # py ''World''))]])], 200),
    [Translate (py ''Hello'') ''en'' ''kn'' (Inr (3221 # py ''Hello'')),
     Translate (py ''World'') ''en'' ''kn'' (Inr (3221 # py ''World''))])"
  using batch_skips_blank_entries
          [of "[(py ''texts'', JList [JStr (py ''Hello''), JStr [], JStr (py ''World'')])]"
              "[py ''Hello'', [], py ''World'']" online]
  by (simp add: online_def translate_batch_def translate_batch_try_def strip_Hello strip_World
                strip_Nil py_Cons_not_Nil)







end
